theory Spec2Isabelle
  imports Complex_Main
begin

section \<open>JavaScript values\<close>

text \<open>
  The frontend is plain JavaScript. A Number is an IEEE double: a finite double is a
  rational, carried here by its exact value; \<open>NaN\<close> and the two infinities are
  constructors of their own. Negative zero behaves like zero in everything the modelled
  code does with a number (truthiness, comparison, \<open>toFixed\<close>), so it is not told apart.
\<close>

datatype jsnum = Num rat | NaN | PosInf | NegInf

datatype jsval =
    JUndefined
  | JNull
  | JBool bool
  | JNumber jsnum
  | JString string
  | JObject "(string \<times> jsval) list"
  | JArray "jsval list"

text \<open>ECMAScript \<open>ToBoolean\<close>: what \<open>!x\<close>, \<open>x || y\<close> and \<open>if (x)\<close> test.\<close>

fun truthy :: "jsval \<Rightarrow> bool" where
  "truthy JUndefined = False"
| "truthy JNull = False"
| "truthy (JBool b) = b"
| "truthy (JNumber (Num q)) = (q \<noteq> 0)"
| "truthy (JNumber NaN) = False"
| "truthy (JNumber PosInf) = True"
| "truthy (JNumber NegInf) = True"
| "truthy (JString s) = (s \<noteq> [])"
| "truthy (JObject kvs) = True"
| "truthy (JArray xs) = True"

text \<open>\<open>a || b\<close>\<close>

definition js_or :: "jsval \<Rightarrow> jsval \<Rightarrow> jsval" where
  "js_or a b = (if truthy a then a else b)"

text \<open>Numeric \<open><\<close> and \<open>>\<close> on Numbers: every comparison with \<open>NaN\<close> is false.\<close>

fun num_lt :: "jsnum \<Rightarrow> jsnum \<Rightarrow> bool" where
  "num_lt (Num a) (Num b) = (a < b)"
| "num_lt (Num a) PosInf = True"
| "num_lt NegInf (Num b) = True"
| "num_lt NegInf PosInf = True"
| "num_lt _ _ = False"

definition num_gt :: "jsnum \<Rightarrow> jsnum \<Rightarrow> bool" where
  "num_gt a b = num_lt b a"

fun isNaN :: "jsnum \<Rightarrow> bool" where
  "isNaN NaN = True"
| "isNaN _ = False"

text \<open>
  The conversions the language performs on values of the other types, and the arithmetic
  of doubles, are built into the engine and not part of this repository. They are taken
  as parameters: \<open>StringToNumber\<close> (the numeric value of a string),
  \<open>ObjectToNumber\<close> and \<open>ObjectToString\<close> (\<open>ToPrimitive\<close> on objects and arrays),
  \<open>NumberToString\<close> (for a Number that is not an integer of magnitude up to \<open>2^53\<close>), and
  \<open>to_double\<close>, the rounding of an exact result to the nearest double (or to an
  infinity), which ends every arithmetic operation on Numbers and every reading of a
  numeric literal.
\<close>

record js_builtins =
  StringToNumber :: "string \<Rightarrow> jsnum"
  ObjectToNumber :: "jsval \<Rightarrow> jsnum"
  ObjectToString :: "jsval \<Rightarrow> string"
  NumberToString :: "jsnum \<Rightarrow> string"
  to_double :: "rat \<Rightarrow> jsnum"

fun ToNumber :: "js_builtins \<Rightarrow> jsval \<Rightarrow> jsnum" where
  "ToNumber B JUndefined = NaN"
| "ToNumber B JNull = Num 0"
| "ToNumber B (JBool b) = Num (if b then 1 else 0)"
| "ToNumber B (JNumber n) = n"
| "ToNumber B (JString s) = StringToNumber B s"
| "ToNumber B v = ObjectToNumber B v"

text \<open>\<open>v < n\<close> for a Number \<open>n\<close>: the left operand is converted to a Number.\<close>

definition js_lt :: "js_builtins \<Rightarrow> jsval \<Rightarrow> jsnum \<Rightarrow> bool" where
  "js_lt B v n = num_lt (ToNumber B v) n"

subsection \<open>Decimal digits\<close>

definition digit_char :: "nat \<Rightarrow> char" where
  "digit_char d = ''0123456789'' ! (d mod 10)"

fun str_nat :: "nat \<Rightarrow> string" where
  "str_nat n = (if n < 10 then [digit_char n] else str_nat (n div 10) @ [digit_char (n mod 10)])"

declare str_nat.simps [simp del]

definition str_int :: "int \<Rightarrow> string" where
  "str_int i = (if i < 0 then ''-'' @ str_nat (nat (- i)) else str_nat (nat i))"

text \<open>
  ECMAScript \<open>ToString\<close>. A Number is written with the fewest digits that read back as
  the same double. Up to \<open>2^53\<close> in magnitude every integer is a double of its own, so
  an integer Number in that range is written with exactly its decimal digits; every
  other Number goes through \<open>NumberToString\<close>.
\<close>

fun ToString :: "js_builtins \<Rightarrow> jsval \<Rightarrow> string" where
  "ToString B JUndefined = ''undefined''"
| "ToString B JNull = ''null''"
| "ToString B (JBool b) = (if b then ''true'' else ''false'')"
| "ToString B (JNumber (Num q)) =
     (if q = of_int \<lfloor>q\<rfloor> \<and> \<bar>q\<bar> \<le> 2 ^ 53 then str_int \<lfloor>q\<rfloor>
      else NumberToString B (Num q))"
| "ToString B (JNumber n) = NumberToString B n"
| "ToString B (JString s) = s"
| "ToString B v = ObjectToString B v"

text \<open>An integer that the service sent as a Number, inside a template literal.\<close>

definition number_string :: "js_builtins \<Rightarrow> int \<Rightarrow> string" where
  "number_string B i = ToString B (JNumber (Num (of_int i)))"

text \<open>The line break and the indentation inside the template literals of the source.\<close>

definition NL :: string where
  "NL = [CHR 0x0A]"

definition indent :: "nat \<Rightarrow> string" where
  "indent n = replicate n CHR '' ''"


text \<open>
  Reading a property. \<open>undefined\<close> and \<open>null\<close> have no properties: the read throws a
  \<open>TypeError\<close>. An object gives its own property or \<open>undefined\<close>; the names read by
  the modelled code (\<open>detail\<close>, \<open>name\<close>, \<open>hormonal_health_score\<close>) are not defined on
  any prototype, so every other value gives \<open>undefined\<close>.
\<close>

record js_error =
  name :: string
  message :: string

definition Error :: "string \<Rightarrow> js_error" where
  "Error m = \<lparr>name = ''Error'', message = m\<rparr>"

definition TypeError :: "string \<Rightarrow> js_error" where
  "TypeError m = \<lparr>name = ''TypeError'', message = m\<rparr>"

fun get_prop :: "jsval \<Rightarrow> string \<Rightarrow> js_error + jsval" where
  "get_prop JUndefined k =
     Inl (TypeError (''Cannot read properties of undefined (reading '' @ [CHR 0x27] @ k @ [CHR 0x27] @ '')''))"
| "get_prop JNull k =
     Inl (TypeError (''Cannot read properties of null (reading '' @ [CHR 0x27] @ k @ [CHR 0x27] @ '')''))"
| "get_prop (JObject kvs) k = Inr (case map_of kvs k of None \<Rightarrow> JUndefined | Some v \<Rightarrow> v)"
| "get_prop v k = Inr JUndefined"

text \<open>\<open>Array.prototype.join\<close> on an array of strings.\<close>

fun join :: "string \<Rightarrow> string list \<Rightarrow> string" where
  "join sep [] = []"
| "join sep [x] = x"
| "join sep (x # y # ys) = x @ sep @ join sep (y # ys)"

text \<open>Whether one string occurs inside another.\<close>

fun starts_with :: "string \<Rightarrow> string \<Rightarrow> bool" where
  "starts_with s [] = True"
| "starts_with [] (p # ps) = False"
| "starts_with (c # cs) (p # ps) = (c = p \<and> starts_with cs ps)"

fun contains :: "string \<Rightarrow> string \<Rightarrow> bool" where
  "contains [] p = (p = [])"
| "contains (c # cs) p = (starts_with (c # cs) p \<or> contains cs p)"

subsection \<open>\<open>parseFloat\<close>\<close>

text \<open>
  \<open>parseFloat\<close> skips leading white space and reads the longest prefix that is a
  decimal literal: a sign, then \<open>Infinity\<close>, or digits with an optional point and
  fraction, or a point and a fraction, each with an optional exponent. What follows the
  prefix is ignored. Without such a prefix the result is \<open>NaN\<close>. The strings of the
  model are ASCII, so the white space is the ASCII white space.
\<close>

definition is_digit :: "char \<Rightarrow> bool" where
  "is_digit c = (c \<in> set ''0123456789'')"

definition is_space :: "char \<Rightarrow> bool" where
  "is_space c = (c \<in> set [CHR '' '', CHR 0x09, CHR 0x0A, CHR 0x0B, CHR 0x0C, CHR 0x0D])"

definition digits_value :: "string \<Rightarrow> nat" where
  "digits_value ds = foldl (\<lambda>a c. 10 * a + (of_char c - 48)) 0 ds"

text \<open>The exponent that follows the mantissa, 0 when no exponent part follows.\<close>

definition exponent_part :: "string \<Rightarrow> int" where
  "exponent_part r =
     (case r of
        [] \<Rightarrow> 0
      | c # r1 \<Rightarrow>
          if c = CHR ''e'' \<or> c = CHR ''E'' then
            (let neg = (r1 \<noteq> [] \<and> hd r1 = CHR ''-'');
                 r2 = (if r1 \<noteq> [] \<and> (hd r1 = CHR ''-'' \<or> hd r1 = CHR ''+'') then tl r1 else r1);
                 ds = takeWhile is_digit r2
             in if ds = [] then 0
                else if neg then - int (digits_value ds) else int (digits_value ds))
          else 0)"

definition scale :: "rat \<Rightarrow> int \<Rightarrow> rat" where
  "scale q e = (if 0 \<le> e then q * 10 ^ nat e else q / 10 ^ nat (- e))"

definition unsigned_literal :: "string \<Rightarrow> rat option" where
  "unsigned_literal u =
     (let ds1 = takeWhile is_digit u;
          r1 = dropWhile is_digit u;
          point = (r1 \<noteq> [] \<and> hd r1 = CHR ''.'');
          ds2 = (if point then takeWhile is_digit (tl r1) else []);
          r2 = (if point then dropWhile is_digit (tl r1) else r1)
      in if ds1 = [] \<and> ds2 = [] then None
         else Some (scale (of_nat (digits_value (ds1 @ ds2)) / 10 ^ length ds2)
                      (exponent_part r2)))"

definition parseFloat :: "js_builtins \<Rightarrow> string \<Rightarrow> jsnum" where
  "parseFloat B s =
     (let t = dropWhile is_space s;
          neg = (t \<noteq> [] \<and> hd t = CHR ''-'');
          u = (if t \<noteq> [] \<and> (hd t = CHR ''-'' \<or> hd t = CHR ''+'') then tl t else t)
      in if starts_with u ''Infinity'' then (if neg then NegInf else PosInf)
         else (case unsigned_literal u of
                 None \<Rightarrow> NaN
               | Some q \<Rightarrow> to_double B (if neg then - q else q)))"

section \<open>API client (\<open>frontend/js/api.js\<close>)\<close>

text \<open>
  What \<open>fetch\<close> does with one request: it resolves with a response (a status, the
  \<open>ok\<close> flag, a body that \<open>response.json()\<close> parses, or fails to parse with the
  message of a \<open>SyntaxError\<close>), or it rejects with an error, an \<open>AbortError\<close> when the
  timer aborted the request.
\<close>

datatype body = NotJSON string | JSON jsval

record response =
  ok :: bool
  status :: nat
  body :: body

datatype fetched = Resolves response | Rejects js_error

text \<open>The \<open>catch\<close> block of \<open>request\<close>: an abort becomes a timeout, the rest is rethrown.\<close>

definition request_catch :: "js_error \<Rightarrow> js_error" where
  "request_catch error = (if name error = ''AbortError'' then Error ''Request timeout'' else error)"

definition request :: "js_builtins \<Rightarrow> fetched \<Rightarrow> js_error + jsval" where
  "request B f =
     (case f of
        Rejects e \<Rightarrow> Inl (request_catch e)
      | Resolves response \<Rightarrow>
          if \<not> ok response then
            (let error = (case body response of
                            NotJSON m \<Rightarrow> JObject [(''detail'', JString ''Unknown error'')]
                          | JSON v \<Rightarrow> v)
             in case get_prop error ''detail'' of
                  Inl e \<Rightarrow> Inl (request_catch e)
                | Inr detail \<Rightarrow>
                    Inl (request_catch (Error (ToString B
                      (js_or detail (JString (''HTTP '' @ str_nat (status response))))))))
          else
            (case body response of
               NotJSON m \<Rightarrow> Inl (request_catch \<lparr>name = ''SyntaxError'', message = m\<rparr>)
             | JSON v \<Rightarrow> Inr v))"

text \<open>
  The methods of the client that the pages call. Each is one \<open>request\<close>; what comes back
  is decided by the remote service, which is not part of this repository, so the
  outcome of each call is a parameter: \<open>Inl\<close> the message of the error the call fails
  with, \<open>Inr\<close> the parsed payload. \<open>USER_ID\<close> is a constant of the configuration.
\<close>

record question =
  number :: int
  q_text :: string

record started =
  session_id :: string
  current_question :: "question option"
  total_questions :: int

record transcript =
  stt_text :: string
  confidence :: jsnum

record answered =
  answer_status :: string
  total_score :: jsval
  risk_level :: jsval
  recommendation :: jsval
  next_question :: "question option"
  current_question_number :: int
  answer_total_questions :: int

record find_request =
  product_category :: string
  current_score :: jsnum
  price_preference :: "string option"
  region :: "string option"
  limit :: nat

record api =
  USER_ID :: string
  startScreening_call :: "string \<Rightarrow> string \<Rightarrow> string \<Rightarrow> string + started"
  speechToText_call :: "string list \<Rightarrow> string \<Rightarrow> string + transcript"
  respondToScreening_call :: "string option \<Rightarrow> string \<Rightarrow> jsnum \<Rightarrow> string + answered"
  findAlternatives_call :: "find_request \<Rightarrow> string + jsval list"

text \<open>The requests a page has sent, the latest first.\<close>

datatype sent =
    StartScreening string string string
  | SpeechToText "string list" string
  | RespondToScreening "string option" string jsnum
  | FindAlternatives find_request

section \<open>Utilities (\<open>js/utils.js\<close>)\<close>

text \<open>
  \<open>showToast\<close> writes the message into the toast element and shows it; \<open>showLoading\<close>
  and \<open>hideLoading\<close> set the display of the loading overlay. The state shared by the
  pages keeps every toast shown (the latest first), the overlay's display and the
  requests sent.
\<close>

record page =
  toasts :: "(string \<times> string) list"
  loadingOverlay :: string
  requests :: "sent list"

definition showToast :: "string \<Rightarrow> string \<Rightarrow> 'a page_scheme \<Rightarrow> 'a page_scheme" where
  "showToast msg type s = s\<lparr>toasts := (msg, type) # toasts s\<rparr>"

definition showLoading :: "'a page_scheme \<Rightarrow> 'a page_scheme" where
  "showLoading s = s\<lparr>loadingOverlay := ''flex''\<rparr>"

definition hideLoading :: "'a page_scheme \<Rightarrow> 'a page_scheme" where
  "hideLoading s = s\<lparr>loadingOverlay := ''none''\<rparr>"

definition send :: "sent \<Rightarrow> 'a page_scheme \<Rightarrow> 'a page_scheme" where
  "send r s = s\<lparr>requests := r # requests s\<rparr>"

section \<open>Voice screening (\<open>js/components/voice.js\<close>)\<close>

text \<open>
  A \<open>MediaRecorder\<close> and the stream it records are objects of the browser; the
  component holds a reference to the last recorder it created. \<open>recorders\<close> is the
  store of every recorder created on the page: whether it is recording, and whether the
  tracks of its stream are live. \<open>awaiting_getUserMedia\<close> counts the calls of
  \<open>startRecording\<close> that are suspended at \<open>await getUserMedia\<close>.
\<close>

record recorder =
  recording :: bool
  tracks_live :: bool

record voice = page +
  mediaRecorder :: "nat option"
  audioChunks :: "string list"
  isRecording :: bool
  sessionId :: "string option"
  currentScreening :: "started option"
  recorders :: "recorder list"
  awaiting_getUserMedia :: nat
  voiceLanguageSelect :: string
  screeningTypeSelect :: string
  recordBtn_recording :: bool
  recordBtn_html :: string
  startScreeningBtn_display :: string
  screeningInterface_display :: string
  screeningResults_display :: string
  transcriptionResult_display :: string
  currentQuestion_html :: string
  screeningProgress_width :: string
  screeningProgress_text :: string
  progressText :: string
  transcriptionText :: string
  screeningScore_text :: string
  screeningScore_class :: string
  screeningRecommendations_html :: string

text \<open>The component as the script creates it, on the markup that \<open>render\<close> returns.\<close>

definition voice_init :: voice where
  \<open>voice_init = \<lparr>
     toasts = [], loadingOverlay = ''none'', requests = [],
     mediaRecorder = None, audioChunks = [], isRecording = False,
     sessionId = None, currentScreening = None,
     recorders = [], awaiting_getUserMedia = 0,
     voiceLanguageSelect = ''en'', screeningTypeSelect = ''EPDS'',
     recordBtn_recording = False,
     recordBtn_html = NL @ indent 44 @ ''<i class="fas fa-microphone"></i>'' @ NL @ indent 40,
     startScreeningBtn_display = [],
     screeningInterface_display = ''none'',
     screeningResults_display = ''none'',
     transcriptionResult_display = ''none'',
     currentQuestion_html = NL @ indent 40 @ ''Question will appear here...'' @ NL @ indent 36,
     screeningProgress_width = ''0%'',
     screeningProgress_text = ''0%'',
     progressText = ''Question 0 of 0'',
     transcriptionText = [],
     screeningScore_text = ''--'',
     screeningScore_class = ''score-badge'',
     screeningRecommendations_html = [] \<rparr>\<close>

text \<open>
  The page is rendered again whenever the navigation loads it: the markup is the
  template's again, the fields of the component object are not touched.
\<close>

definition voice_render :: "voice \<Rightarrow> voice" where
  \<open>voice_render s = s\<lparr>
     voiceLanguageSelect := ''en'', screeningTypeSelect := ''EPDS'',
     recordBtn_recording := False,
     recordBtn_html := NL @ indent 44 @ ''<i class="fas fa-microphone"></i>'' @ NL @ indent 40,
     startScreeningBtn_display := [],
     screeningInterface_display := ''none'',
     screeningResults_display := ''none'',
     transcriptionResult_display := ''none'',
     currentQuestion_html := NL @ indent 40 @ ''Question will appear here...'' @ NL @ indent 36,
     screeningProgress_width := ''0%'',
     screeningProgress_text := ''0%'',
     progressText := ''Question 0 of 0'',
     transcriptionText := [],
     screeningScore_text := ''--'',
     screeningScore_class := ''score-badge'',
     screeningRecommendations_html := [] \<rparr>\<close>

definition displayQuestion :: "js_builtins \<Rightarrow> question option \<Rightarrow> voice \<Rightarrow> voice" where
  "displayQuestion B q s =
     (case q of
        None \<Rightarrow> s
      | Some question \<Rightarrow> s\<lparr>currentQuestion_html :=
          NL @ indent 12 @ ''<strong>Question '' @ number_string B (number question) @
            '':</strong><br>'' @
          NL @ indent 12 @ q_text question @ NL @ indent 8\<rparr>)"

text \<open>
  \<open>(current / total) * 100\<close> on two integers, in double arithmetic: a division by zero
  gives \<open>NaN\<close> or an infinity, and each of the two operations rounds its result.
  \<open>Math.round\<close> takes a Number to the nearest integer, a half upwards.
\<close>

definition percentage :: "js_builtins \<Rightarrow> int \<Rightarrow> int \<Rightarrow> jsnum" where
  "percentage B current tot =
     (if tot = 0 then (if current = 0 then NaN else if 0 < current then PosInf else NegInf)
      else (case to_double B (of_int current / of_int tot) of
              Num q \<Rightarrow> to_double B (q * 100)
            | n \<Rightarrow> n))"

fun Math_round :: "jsnum \<Rightarrow> jsnum" where
  "Math_round (Num q) = Num (of_int \<lfloor>q + 1 / 2\<rfloor>)"
| "Math_round n = n"

definition updateProgress :: "js_builtins \<Rightarrow> int \<Rightarrow> int \<Rightarrow> voice \<Rightarrow> voice" where
  "updateProgress B current tot s =
     s\<lparr>screeningProgress_width := ToString B (JNumber (percentage B current tot)) @ ''%'',
       screeningProgress_text :=
         ToString B (JNumber (Math_round (percentage B current tot))) @ ''%'',
       progressText :=
         ''Question '' @ number_string B current @ '' of '' @ number_string B tot\<rparr>"

text \<open>The class that \<open>displayResults\<close> picks for the badge, and the one for the alert.\<close>

definition score_badge :: "js_builtins \<Rightarrow> jsval \<Rightarrow> string" where
  "score_badge B score =
     (if js_lt B score (Num 10) then ''score-safe''
      else if js_lt B score (Num 20) then ''score-warning'' else ''score-danger'')"

definition score_alert :: "js_builtins \<Rightarrow> jsval \<Rightarrow> string" where
  "score_alert B score =
     (if js_lt B score (Num 10) then ''alert-success''
      else if js_lt B score (Num 20) then ''alert-warning'' else ''alert-danger'')"

text \<open>The template literal that \<open>displayResults\<close> writes into the recommendations.\<close>

definition recommendations_markup :: "string \<Rightarrow> string \<Rightarrow> string \<Rightarrow> string" where
  \<open>recommendations_markup cls heading para =
     NL @ indent 12 @ ''<div class="alert '' @ cls @ ''">'' @
     NL @ indent 16 @ ''<h5>'' @ heading @ ''</h5>'' @
     NL @ indent 16 @ ''<p>'' @ para @ ''</p>'' @
     NL @ indent 12 @ ''</div>'' @ NL @ indent 8\<close>

definition displayResults :: "js_builtins \<Rightarrow> answered \<Rightarrow> voice \<Rightarrow> voice" where
  "displayResults B response s =
     (let s1 = s\<lparr>screeningInterface_display := ''none'', screeningResults_display := ''block''\<rparr>;
          score = js_or (total_score response) (JNumber (Num 0));
          s2 = s1\<lparr>screeningScore_text := ToString B score,
                  screeningScore_class := ''score-badge '' @ score_badge B score\<rparr>;
          s3 = s2\<lparr>screeningRecommendations_html :=
                  recommendations_markup (score_alert B score)
                    (ToString B (js_or (risk_level response) (JString ''Assessment Complete'')))
                    (ToString B (js_or (recommendation response)
                      (JString ''Thank you for completing the screening.'')))\<rparr>
      in showToast ''Screening completed'' ''success'' s3)"

text \<open>
  \<open>startScreening\<close>, run from the click to its \<open>finally\<close> block. The assignments of the
  \<open>try\<close> block happen only once the awaited call has returned a result.
\<close>

definition startScreening :: "js_builtins \<Rightarrow> api \<Rightarrow> voice \<Rightarrow> voice" where
  "startScreening B A s =
     (let language = voiceLanguageSelect s;
          screeningType = screeningTypeSelect s;
          s1 = send (StartScreening screeningType language (USER_ID A)) (showLoading s);
          s2 = (case startScreening_call A screeningType language (USER_ID A) of
                  Inr result \<Rightarrow>
                    showToast ''Screening started'' ''success''
                      (updateProgress B 1 (total_questions result)
                        (displayQuestion B (current_question result)
                          (s1\<lparr>sessionId := Some (session_id result),
                              currentScreening := Some result,
                              startScreeningBtn_display := ''none'',
                              screeningInterface_display := ''block''\<rparr>)))
                | Inl msg \<Rightarrow> showToast (''Failed to start screening: '' @ msg) ''error'' s1)
      in hideLoading s2)"

text \<open>\<open>processAudio\<close>, run from the \<open>stop\<close> event of the recorder to its \<open>finally\<close> block.\<close>

definition processAudio :: "js_builtins \<Rightarrow> api \<Rightarrow> string list \<Rightarrow> voice \<Rightarrow> voice" where
  "processAudio B A audioBlob s =
     (let s1 = showLoading s;
          language = voiceLanguageSelect s1;
          s2 = send (SpeechToText audioBlob language) s1;
          s3 = (case speechToText_call A audioBlob language of
                  Inl msg \<Rightarrow> showToast (''Failed to process audio: '' @ msg) ''error'' s2
                | Inr sttResult \<Rightarrow>
                    (let s4 = s2\<lparr>transcriptionText := stt_text sttResult,
                                 transcriptionResult_display := ''block''\<rparr>;
                         s5 = send (RespondToScreening (sessionId s4) (stt_text sttResult)
                                      (confidence sttResult)) s4
                     in case respondToScreening_call A (sessionId s4) (stt_text sttResult)
                               (confidence sttResult) of
                          Inl msg \<Rightarrow> showToast (''Failed to process audio: '' @ msg) ''error'' s5
                        | Inr response \<Rightarrow>
                            if answer_status response = ''complete'' then displayResults B response s5
                            else if answer_status response = ''next_question'' then
                              updateProgress B (current_question_number response)
                                (answer_total_questions response)
                                (displayQuestion B (next_question response) s5)
                            else s5))
      in hideLoading s3)"

definition resetScreening :: "voice \<Rightarrow> voice" where
  "resetScreening s =
     s\<lparr>sessionId := None, currentScreening := None,
       startScreeningBtn_display := ''block'',
       screeningInterface_display := ''none'',
       screeningResults_display := ''none'',
       transcriptionResult_display := ''none''\<rparr>"

text \<open>
  Recording. \<open>startRecording\<close> suspends at \<open>await getUserMedia\<close>; what follows the
  \<open>await\<close> runs when the browser grants the microphone, the \<open>catch\<close> block when it
  refuses.
\<close>

definition startRecording_granted :: "voice \<Rightarrow> voice" where
  \<open>startRecording_granted s =
     showToast ''Recording...'' ''info''
       (s\<lparr>recorders := recorders s @ [\<lparr>recording = True, tracks_live = True\<rparr>],
          mediaRecorder := Some (length (recorders s)),
          audioChunks := [],
          isRecording := True,
          recordBtn_recording := True,
          recordBtn_html := ''<i class="fas fa-stop"></i>''\<rparr>)\<close>

definition startRecording_denied :: "voice \<Rightarrow> voice" where
  "startRecording_denied s = showToast ''Microphone access denied'' ''error'' s"

definition startRecording :: "bool \<Rightarrow> voice \<Rightarrow> voice" where
  "startRecording granted s = (if granted then startRecording_granted s else startRecording_denied s)"

definition stopRecording :: "voice \<Rightarrow> voice" where
  \<open>stopRecording s =
     (case mediaRecorder s of
        None \<Rightarrow> s
      | Some r \<Rightarrow>
          if isRecording s then
            s\<lparr>recorders := (recorders s)[r := \<lparr>recording = False, tracks_live = False\<rparr>],
              isRecording := False,
              recordBtn_recording := False,
              recordBtn_html := ''<i class="fas fa-microphone"></i>''\<rparr>
          else s)\<close>

definition toggleRecording :: "bool \<Rightarrow> voice \<Rightarrow> voice" where
  "toggleRecording granted s = (if isRecording s then stopRecording s else startRecording granted s)"

text \<open>
  The same handlers as the event loop runs them: a click on the record button runs
  \<open>toggleRecording\<close> up to the first \<open>await\<close>; the microphone's answer resumes one
  suspended \<open>startRecording\<close>; a stopped recorder hands over its data
  (\<open>ondataavailable\<close>) and then has the recording processed (\<open>onstop\<close>).
\<close>

datatype event =
    ClickRecord
  | MicrophoneGranted
  | MicrophoneDenied
  | DataAvailable string
  | RecorderStopped api
  | ClickStart api

definition step :: "js_builtins \<Rightarrow> event \<Rightarrow> voice \<Rightarrow> voice" where
  "step B e s =
     (case e of
        ClickRecord \<Rightarrow>
          if isRecording s then stopRecording s
          else s\<lparr>awaiting_getUserMedia := awaiting_getUserMedia s + 1\<rparr>
      | MicrophoneGranted \<Rightarrow>
          if awaiting_getUserMedia s = 0 then s
          else startRecording_granted (s\<lparr>awaiting_getUserMedia := awaiting_getUserMedia s - 1\<rparr>)
      | MicrophoneDenied \<Rightarrow>
          if awaiting_getUserMedia s = 0 then s
          else startRecording_denied (s\<lparr>awaiting_getUserMedia := awaiting_getUserMedia s - 1\<rparr>)
      | DataAvailable chunk \<Rightarrow> s\<lparr>audioChunks := audioChunks s @ [chunk]\<rparr>
      | RecorderStopped A \<Rightarrow> processAudio B A (audioChunks s) s
      | ClickStart A \<Rightarrow> startScreening B A s)"

fun run :: "js_builtins \<Rightarrow> event list \<Rightarrow> voice \<Rightarrow> voice" where
  "run B [] s = s"
| "run B (e # es) s = run B es (step B e s)"

definition active_recorders :: "voice \<Rightarrow> nat" where
  "active_recorders s = length (filter recording (recorders s))"

section \<open>Alternatives and shopping list (\<open>js/components/notifications.js\<close>)\<close>

text \<open>
  \<open>Number.prototype.toFixed\<close>, as ECMAScript defines it: a Number that is not finite is
  written by name; the sign is split off; from \<open>10^21\<close> on the Number is written as
  \<open>ToString\<close> writes it; otherwise \<open>n\<close> is the integer nearest to \<open>x * 10^f\<close> (the
  larger one of two), its digits are padded with zeros to \<open>f + 1\<close> places, and the point
  goes before the last \<open>f\<close> digits.
\<close>

definition place_point :: "string \<Rightarrow> nat \<Rightarrow> string" where
  "place_point m f =
     (if f \<noteq> 0 then
        (let m' = (if length m \<le> f then replicate (f + 1 - length m) CHR ''0'' @ m else m);
             k = length m'
         in take (k - f) m' @ ''.'' @ drop (k - f) m')
      else m)"

definition toFixed :: "js_builtins \<Rightarrow> jsnum \<Rightarrow> nat \<Rightarrow> string" where
  "toFixed B v f =
     (case v of
        NaN \<Rightarrow> ''NaN''
      | PosInf \<Rightarrow> ''Infinity''
      | NegInf \<Rightarrow> ''-Infinity''
      | Num q \<Rightarrow>
          (let s = (if q < 0 then ''-'' else []);
               x = \<bar>q\<bar>
           in if x \<ge> 10 ^ 21 then s @ NumberToString B (Num x)
              else
                (let n = nat \<lfloor>x * 10 ^ f + 1 / 2\<rfloor>;
                     m = (if n = 0 then ''0'' else str_nat n)
                 in s @ place_point m f)))"

text \<open>
  The call \<open>v.toFixed(1)\<close> on a value: only a Number has the method. On \<open>undefined\<close>
  and \<open>null\<close> the property read throws; on the other values the property is not a
  function and the call throws.
\<close>

definition call_toFixed :: "js_builtins \<Rightarrow> jsval \<Rightarrow> nat \<Rightarrow> js_error + string" where
  "call_toFixed B v f =
     (case v of
        JNumber n \<Rightarrow> Inr (toFixed B n f)
      | JUndefined \<Rightarrow> Inl (TypeError ''Cannot read properties of undefined (reading 'toFixed')'')
      | JNull \<Rightarrow> Inl (TypeError ''Cannot read properties of null (reading 'toFixed')'')
      | _ \<Rightarrow> Inl (TypeError ''item.hormonal_health_score.toFixed is not a function''))"

text \<open>\<open>Array.prototype.map\<close> with a callback that may throw: the first throw ends the map.\<close>

fun map_throw :: "('a \<Rightarrow> js_error + 'b) \<Rightarrow> 'a list \<Rightarrow> js_error + 'b list" where
  "map_throw f [] = Inr []"
| "map_throw f (x # xs) =
     (case f x of
        Inl e \<Rightarrow> Inl e
      | Inr y \<Rightarrow> (case map_throw f xs of Inl e \<Rightarrow> Inl e | Inr ys \<Rightarrow> Inr (y # ys)))"

text \<open>
  The page: the two fields of the component, the form controls that \<open>searchAlternatives\<close>
  reads, the elements it writes, and the files the browser was made to download.
\<close>

record alternatives = page +
  shoppingList :: "jsval list"
  currentCategory :: string
  categorySelect :: string
  currentScore :: string
  pricePreference :: string
  regionSelect :: string
  alternativesList_html :: string
  alternativesResults_display :: string
  downloads :: "(string \<times> string) list"

text \<open>
  \<open>displayAlternatives\<close>. The markup of one product card is a long template literal over
  the fields of one alternative; it is taken as the parameter \<open>card_html\<close>, which gives the
  markup or the error that evaluating the template throws.
\<close>

definition displayAlternatives ::
  "(jsval \<Rightarrow> js_error + string) \<Rightarrow> jsval list \<Rightarrow> alternatives \<Rightarrow> js_error + alternatives" where
  \<open>displayAlternatives card_html alts s =
     (if length alts = 0 then
        Inr (s\<lparr>alternativesList_html := ''<p class="text-muted">No alternatives found</p>'',
               alternativesResults_display := ''block''\<rparr>)
      else
        (case map_throw card_html alts of
           Inl e \<Rightarrow> Inl e
         | Inr cards \<Rightarrow>
             Inr (s\<lparr>alternativesList_html := join [] cards,
                    alternativesResults_display := ''block''\<rparr>)))\<close>

text \<open>\<open>x || null\<close> on the value of a form control, which is a string.\<close>

definition or_null :: "string \<Rightarrow> string option" where
  "or_null v = (if truthy (JString v) then Some v else None)"

definition searchAlternatives ::
  "js_builtins \<Rightarrow> api \<Rightarrow> (jsval \<Rightarrow> js_error + string) \<Rightarrow> alternatives \<Rightarrow> alternatives" where
  "searchAlternatives B A card_html s =
     (let category = categorySelect s;
          score = parseFloat B (currentScore s);
          price = or_null (pricePreference s);
          reg = or_null (regionSelect s)
      in if \<not> truthy (JString category) then
           showToast ''Please select a category'' ''warning'' s
         else if isNaN score \<or> num_lt score (Num 0) \<or> num_gt score (Num 100) then
           showToast ''Please enter a valid score (0-100)'' ''warning'' s
         else
           (let s1 = (showLoading s)\<lparr>currentCategory := category\<rparr>;
                req = \<lparr>product_category = category, current_score = score,
                       price_preference = price, region = reg, limit = 10\<rparr>;
                s2 = send (FindAlternatives req) s1;
                s3 = (case findAlternatives_call A req of
                        Inl msg \<Rightarrow> showToast (''Search failed: '' @ msg) ''error'' s2
                      | Inr alts \<Rightarrow>
                          (case displayAlternatives card_html alts s2 of
                             Inl e \<Rightarrow> showToast (''Search failed: '' @ message e) ''error'' s2
                           | Inr s' \<Rightarrow>
                               showToast (''Found '' @ str_nat (length alts) @ '' alternatives'')
                                 ''success'' s'))
            in hideLoading s3))"

text \<open>
  \<open>exportShoppingList\<close>. It has no \<open>try\<close>: an error thrown while a line is built leaves
  the handler, and nothing is downloaded.
\<close>

definition export_line :: "js_builtins \<Rightarrow> jsval \<Rightarrow> js_error + string" where
  "export_line B item =
     (case get_prop item ''name'' of
        Inl e \<Rightarrow> Inl e
      | Inr nm \<Rightarrow>
          (case get_prop item ''hormonal_health_score'' of
             Inl e \<Rightarrow> Inl e
           | Inr sc \<Rightarrow>
               (case call_toFixed B sc 1 of
                  Inl e \<Rightarrow> Inl e
                | Inr fixed \<Rightarrow> Inr (ToString B nm @ '' (Score: '' @ fixed @ '')''))))"

definition exportShoppingList :: "js_builtins \<Rightarrow> alternatives \<Rightarrow> js_error + alternatives" where
  "exportShoppingList B s =
     (case map_throw (export_line B) (shoppingList s) of
        Inl e \<Rightarrow> Inl e
      | Inr ls \<Rightarrow>
          (let txt = join NL ls
           in Inr (showToast ''Shopping list exported'' ''success''
                (s\<lparr>downloads := (''sakhi-shopping-list.txt'', txt) # downloads s\<rparr>))))"

section \<open>Navigation (\<open>js/app.js\<close>)\<close>

text \<open>
  \<open>this.components\<close> is an object literal with five own properties. Reading
  \<open>this.components[page]\<close> finds an own property, or else a property that every object
  inherits from \<open>Object.prototype\<close>, or else \<open>undefined\<close>.
\<close>

datatype component =
    HomeComponent
  | OCRComponent
  | AlternativesComponent
  | VoiceComponent
  | NotificationsComponent

definition components :: "(string \<times> component) list" where
  "components =
     [(''home'', HomeComponent),
      (''ocr'', OCRComponent),
      (''alternatives'', AlternativesComponent),
      (''voice'', VoiceComponent),
      (''notifications'', NotificationsComponent)]"

definition Object_prototype :: "string list" where
  "Object_prototype =
     [''constructor'', ''__defineGetter__'', ''__defineSetter__'', ''hasOwnProperty'',
      ''__lookupGetter__'', ''__lookupSetter__'', ''isPrototypeOf'', ''propertyIsEnumerable'',
      ''toString'', ''valueOf'', ''__proto__'', ''toLocaleString'']"

datatype member = Own component | Inherited string | Undefined

definition components_get :: "string \<Rightarrow> member" where
  "components_get page =
     (case map_of components page of
        Some c \<Rightarrow> Own c
      | None \<Rightarrow> if page \<in> set Object_prototype then Inherited page else Undefined)"

text \<open>The inherited members are functions (\<open>__proto__\<close> is an object): all are truthy.\<close>

fun member_truthy :: "member \<Rightarrow> bool" where
  "member_truthy (Own c) = True"
| "member_truthy (Inherited k) = True"
| "member_truthy Undefined = False"

text \<open>
  The markup a component renders and whether it has an \<open>init\<close> hook are parameters; the
  state keeps which components were initialised, the latest first.
\<close>

record hooks =
  render :: "component \<Rightarrow> string"
  has_init :: "component \<Rightarrow> bool"

record app =
  currentPage :: string
  nav_links :: "(string \<times> bool) list"
  app_content :: string
  initialised :: "component list"
  scrolled_to_top :: bool
  history :: "string list"

definition loadPage :: "hooks \<Rightarrow> string \<Rightarrow> app \<Rightarrow> js_error option \<times> app" where
  "loadPage H page0 a =
     (let page = (if \<not> member_truthy (components_get page0) then ''home'' else page0);
          a1 = a\<lparr>currentPage := page\<rparr>;
          a2 = a1\<lparr>nav_links := map (\<lambda>(href, active). (href, href = ''#'' @ page)) (nav_links a1)\<rparr>
      in case components_get page of
           Own c \<Rightarrow>
             (let a3 = a2\<lparr>app_content := render H c\<rparr>;
                  a4 = (if has_init H c then a3\<lparr>initialised := c # initialised a3\<rparr> else a3)
              in (None, a4\<lparr>scrolled_to_top := True\<rparr>))
         | _ \<Rightarrow> (Some (TypeError ''component.render is not a function''), a2))"

definition navigate :: "hooks \<Rightarrow> string \<Rightarrow> app \<Rightarrow> js_error option \<times> app" where
  "navigate H page a = loadPage H page (a\<lparr>history := page # history a\<rparr>)"

text \<open>What \<open>loadPage\<close> does once the page key is settled on a registered component.\<close>

definition loaded :: "hooks \<Rightarrow> string \<Rightarrow> component \<Rightarrow> app \<Rightarrow> app" where
  "loaded H page c a =
     a\<lparr>currentPage := page,
       nav_links := map (\<lambda>(href, active). (href, href = ''#'' @ page)) (nav_links a),
       app_content := render H c,
       initialised := (if has_init H c then c # initialised a else initialised a),
       scrolled_to_top := True\<rparr>"

section \<open>The specification's words\<close>

text \<open>
  The risk banding as the specification states it: low below 10, medium from 10 to 19,
  high from 20 on.
\<close>

datatype band = Low | Medium | High

definition classification :: "rat \<Rightarrow> band" where
  "classification s = (if s < 10 then Low else if 10 \<le> s \<and> s < 20 then Medium else High)"

text \<open>
  The exported text as the specification states it: one line per item, the name, then
  the score to one decimal place in brackets, the lines joined by line breaks.
  \<open>entry\<close> reads the name and the score off an item that carries a Number as its
  \<open>hormonal_health_score\<close>, the property that the code takes for the score. A score is
  put to one decimal place by \<open>toFixed(1)\<close>; for a finite score of magnitude below
  \<open>10^21\<close> that is \<open>one_decimal\<close>: the sign, the whole part, a point and one digit of
  the score rounded to tenths.
\<close>

definition entry :: "jsval \<Rightarrow> (jsval \<times> jsnum) option" where
  "entry item =
     (case item of
        JObject kvs \<Rightarrow>
          (case map_of kvs ''hormonal_health_score'' of
             Some (JNumber n) \<Rightarrow>
               Some (case map_of kvs ''name'' of None \<Rightarrow> JUndefined | Some v \<Rightarrow> v, n)
           | _ \<Rightarrow> None)
      | _ \<Rightarrow> None)"

definition export_entry :: "js_builtins \<Rightarrow> jsval \<times> jsnum \<Rightarrow> string" where
  "export_entry B e = ToString B (fst e) @ '' (Score: '' @ toFixed B (snd e) 1 @ '')''"



text \<open>
  The recording invariant of the specification, in the terms of the component: no
  recorder records while \<open>isRecording\<close> is false, and while it is true exactly one does,
  the one that \<open>mediaRecorder\<close> refers to.
\<close>

definition one_recording :: "voice \<Rightarrow> bool" where
  "one_recording s =
     (active_recorders s = (if isRecording s then 1 else 0)
      \<and> (isRecording s \<longrightarrow>
           (case mediaRecorder s of
              None \<Rightarrow> False
            | Some r \<Rightarrow> r < length (recorders s) \<and> recording (recorders s ! r))))"

text \<open>Whether a message names the status code of a response.\<close>

definition names_status :: "string \<Rightarrow> nat \<Rightarrow> bool" where
  "names_status msg code = contains msg (str_nat code)"

section \<open>Values for evaluation\<close>

text \<open>
  An engine and two remote services to evaluate the definitions at concrete inputs. The
  engine rounds nothing, which is exact on the inputs used below. The service \<open>online\<close> starts a
  five-question session whose first question carries the number 3, hears every
  recording as \<open>yes\<close> and answers with question 4; \<open>offline\<close> fails every call.
\<close>

definition engine :: js_builtins where
  "engine = \<lparr>
     StringToNumber = (\<lambda>s. NaN),
     ObjectToNumber = (\<lambda>v. NaN),
     ObjectToString = (\<lambda>v. ''[object Object]''),
     NumberToString = (\<lambda>n. ''NaN''),
     to_double = Num \<rparr>"

definition first_response :: started where
  "first_response = \<lparr>
     session_id = ''s1'',
     current_question = Some \<lparr>number = 3, q_text = ''How are you?''\<rparr>,
     total_questions = 5 \<rparr>"

definition heard :: transcript where
  "heard = \<lparr>stt_text = ''yes'', confidence = Num (9 / 10)\<rparr>"

definition next_response :: answered where
  "next_response = \<lparr>
     answer_status = ''next_question'',
     total_score = JUndefined,
     risk_level = JUndefined,
     recommendation = JUndefined,
     next_question = Some \<lparr>number = 4, q_text = ''Do you sleep well?''\<rparr>,
     current_question_number = 4,
     answer_total_questions = 5 \<rparr>"

definition online :: api where
  "online = \<lparr>
     USER_ID = ''demo'',
     startScreening_call = (\<lambda>ty lang user. Inr first_response),
     speechToText_call = (\<lambda>blob lang. Inr heard),
     respondToScreening_call = (\<lambda>sid txt conf. Inr next_response),
     findAlternatives_call = (\<lambda>req. Inr []) \<rparr>"

definition offline :: api where
  "offline = \<lparr>
     USER_ID = ''demo'',
     startScreening_call = (\<lambda>ty lang user. Inl ''Failed to fetch''),
     speechToText_call = (\<lambda>blob lang. Inl ''Request timeout''),
     respondToScreening_call = (\<lambda>sid txt conf. Inl ''HTTP 500''),
     findAlternatives_call = (\<lambda>req. Inl ''Failed to fetch'') \<rparr>"

text \<open>A service that hears the recording and then fails to take the answer.\<close>

definition deaf :: api where
  "deaf = online\<lparr>respondToScreening_call := (\<lambda>sid txt conf. Inl ''HTTP 500'')\<rparr>"

text \<open>A completion response, before its score is set.\<close>

definition completed :: answered where
  "completed = \<lparr>
     answer_status = ''complete'',
     total_score = JUndefined,
     risk_level = JString ''Low risk'',
     recommendation = JUndefined,
     next_question = None,
     current_question_number = 5,
     answer_total_questions = 5 \<rparr>"

text \<open>
  The alternatives page as the script creates it, on the markup that \<open>render\<close>
  returns; the double nearest to 72.3; the list of the specification's example, two
  items with the names A and B and the scores 72.3 and 15.0.
\<close>

definition alternatives_init :: alternatives where
  "alternatives_init = \<lparr>
     toasts = [], loadingOverlay = ''none'', requests = [],
     shoppingList = [], currentCategory = [],
     categorySelect = [], currentScore = ''45'',
     pricePreference = [], regionSelect = [],
     alternativesList_html = [], alternativesResults_display = ''none'',
     downloads = [] \<rparr>"



text \<open>A response with status 500 whose body is not JSON, and one whose body is.\<close>

definition plain_500 :: response where
  "plain_500 = \<lparr>ok = False, status = 500, body = NotJSON ''Unexpected token I''\<rparr>"

definition detailed_404 :: response where
  "detailed_404 = \<lparr>ok = False, status = 404,
     body = JSON (JObject [(''detail'', JString ''Session not found'')])\<rparr>"

text \<open>The application before its first navigation, with the five links of the menu.\<close>

definition app_init :: app where
  "app_init = \<lparr>
     currentPage = ''home'',
     nav_links = [(''#home'', False), (''#ocr'', False), (''#alternatives'', False),
                  (''#voice'', False), (''#notifications'', False)],
     app_content = [],
     initialised = [],
     scrolled_to_top = False,
     history = [] \<rparr>"

definition pages :: hooks where
  "pages = \<lparr>render = (\<lambda>c. ''<div class=section-container></div>''), has_init = (\<lambda>c. True)\<rparr>"

section \<open>Decimal digits: basic facts\<close>

lemma str_nat_digit: "n < 10 \<Longrightarrow> str_nat n = [digit_char n]"
  by (simp add: str_nat.simps)


lemma str_int_0: "str_int 0 = ''0''"
  by (simp add: str_int_def str_nat_digit digit_char_def)

lemma str_int_digit: "0 \<le> i \<Longrightarrow> i < 10 \<Longrightarrow> str_int i = [digit_char (nat i)]"
  by (simp add: str_int_def str_nat_digit)

lemma number_string_small:
  assumes "\<bar>i\<bar> \<le> 2 ^ 53"
  shows "number_string B i = str_int i"
proof -
  have "\<bar>of_int i :: rat\<bar> = of_int \<bar>i\<bar>"
    by simp
  also have "\<dots> \<le> 2 ^ 53"
    using assms by (simp only: of_int_le_numeral_power_cancel_iff)
  finally show ?thesis
    by (simp add: number_string_def)
qed

lemma number_string_digit:
  "0 \<le> i \<Longrightarrow> i < 10 \<Longrightarrow> number_string B i = [digit_char (nat i)]"
  by (simp add: number_string_small str_int_digit)

section \<open>Risk banding of the displayed score\<close>

lemma js_or_num: "js_or (JNumber (Num q)) (JNumber (Num 0)) = JNumber (Num q)"
  by (simp add: js_or_def)

text \<open>
  C1. \<open>displayResults\<close> bands every numeric score \<open>q\<close> it displays as the specification
  says: the class written on the badge and the class written on the alert are those of
  the band of \<open>q\<close>, which is low below 10, medium from 10 and below 20, high from 20 on.
  The boundaries are exact: 9 is low, 10 and 19 are medium, 20 is high.
\<close>

theorem displayResults_banding:
  "screeningScore_class (displayResults B (r\<lparr>total_score := JNumber (Num q)\<rparr>) s)
     = ''score-badge '' @
         (case classification q of
            Low \<Rightarrow> ''score-safe'' | Medium \<Rightarrow> ''score-warning'' | High \<Rightarrow> ''score-danger'')
   \<and> screeningRecommendations_html (displayResults B (r\<lparr>total_score := JNumber (Num q)\<rparr>) s)
     = NL @ indent 12 @ ''<div class='' @ [CHR 0x22] @ ''alert '' @
         (case classification q of
            Low \<Rightarrow> ''alert-success'' | Medium \<Rightarrow> ''alert-warning'' | High \<Rightarrow> ''alert-danger'') @
         [CHR 0x22] @ ''>'' @
       NL @ indent 16 @ ''<h5>'' @
         ToString B (js_or (risk_level r) (JString ''Assessment Complete'')) @ ''</h5>'' @
       NL @ indent 16 @ ''<p>'' @
         ToString B (js_or (recommendation r)
           (JString ''Thank you for completing the screening.'')) @ ''</p>'' @
       NL @ indent 12 @ ''</div>'' @ NL @ indent 8
   \<and> (q < 10 \<longrightarrow> classification q = Low)
   \<and> (10 \<le> q \<and> q < 20 \<longrightarrow> classification q = Medium)
   \<and> (20 \<le> q \<longrightarrow> classification q = High)
   \<and> classification 9 = Low \<and> classification 10 = Medium
   \<and> classification 19 = Medium \<and> classification 20 = High"
  by (simp add: displayResults_def Let_def showToast_def js_or_num score_badge_def
        score_alert_def js_lt_def classification_def recommendations_markup_def)

text \<open>The scores 9, 10, 19 and 20: the badge and the alert as they are written.\<close>

theorem displayResults_banding_witness:
  "(9::rat) < 10 \<and> (10 \<le> (10::rat) \<and> (10::rat) < 20) \<and> (10 \<le> (19::rat) \<and> (19::rat) < 20)
   \<and> 20 \<le> (20::rat)
   \<and> map (\<lambda>q. screeningScore_class
          (displayResults engine (completed\<lparr>total_score := JNumber (Num q)\<rparr>) voice_init))
        [9, 10, 19, 20]
       = [''score-badge score-safe'', ''score-badge score-warning'',
          ''score-badge score-warning'', ''score-badge score-danger'']
   \<and> map (\<lambda>q. screeningRecommendations_html
          (displayResults engine (completed\<lparr>total_score := JNumber (Num q)\<rparr>) voice_init))
        [9, 10, 19, 20]
       = map (\<lambda>cls. NL @ indent 12 @ ''<div class='' @ [CHR 0x22] @ ''alert '' @ cls @
                 [CHR 0x22] @ ''>'' @
               NL @ indent 16 @ ''<h5>Low risk</h5>'' @
               NL @ indent 16 @ ''<p>Thank you for completing the screening.</p>'' @
               NL @ indent 12 @ ''</div>'' @ NL @ indent 8)
           [''alert-success'', ''alert-warning'', ''alert-warning'', ''alert-danger'']"
  using displayResults_banding [where B = engine and r = completed and q = 9 and s = voice_init]
        displayResults_banding [where B = engine and r = completed and q = 10 and s = voice_init]
        displayResults_banding [where B = engine and r = completed and q = 19 and s = voice_init]
        displayResults_banding [where B = engine and r = completed and q = 20 and s = voice_init]
  by (simp add: completed_def js_or_def)

text \<open>
  C10. When \<open>total_score\<close> is absent, \<open>null\<close> or any other falsy value, \<open>displayResults\<close>
  does exactly what it does for the score 0: it displays \<open>0\<close>, writes the safe class on
  the badge and the success class on the alert.
\<close>

theorem displayResults_falsy_score:
  assumes "\<not> truthy v"
  shows "displayResults B (r\<lparr>total_score := v\<rparr>) s
           = displayResults B (r\<lparr>total_score := JNumber (Num 0)\<rparr>) s
         \<and> screeningScore_text (displayResults B (r\<lparr>total_score := v\<rparr>) s) = ''0''
         \<and> screeningScore_class (displayResults B (r\<lparr>total_score := v\<rparr>) s)
             = ''score-badge score-safe''
         \<and> screeningRecommendations_html (displayResults B (r\<lparr>total_score := v\<rparr>) s)
             = NL @ indent 12 @ ''<div class='' @ [CHR 0x22] @ ''alert alert-success'' @
                 [CHR 0x22] @ ''>'' @
               NL @ indent 16 @ ''<h5>'' @
                 ToString B (js_or (risk_level r) (JString ''Assessment Complete'')) @ ''</h5>'' @
               NL @ indent 16 @ ''<p>'' @
                 ToString B (js_or (recommendation r)
                   (JString ''Thank you for completing the screening.'')) @ ''</p>'' @
               NL @ indent 12 @ ''</div>'' @ NL @ indent 8"
  using assms
  by (simp add: displayResults_def Let_def showToast_def js_or_def str_int_0
        score_badge_def score_alert_def js_lt_def recommendations_markup_def)

text \<open>A response without a score, one with \<open>null\<close> and one with the score 0.\<close>

theorem displayResults_falsy_score_witness:
  "\<not> truthy JUndefined \<and> \<not> truthy JNull
   \<and> displayResults engine (completed\<lparr>total_score := JUndefined\<rparr>) voice_init
       = displayResults engine (completed\<lparr>total_score := JNumber (Num 0)\<rparr>) voice_init
   \<and> displayResults engine (completed\<lparr>total_score := JNull\<rparr>) voice_init
       = displayResults engine (completed\<lparr>total_score := JNumber (Num 0)\<rparr>) voice_init
   \<and> screeningScore_text
        (displayResults engine (completed\<lparr>total_score := JUndefined\<rparr>) voice_init) = ''0''
   \<and> screeningScore_class
        (displayResults engine (completed\<lparr>total_score := JUndefined\<rparr>) voice_init)
       = ''score-badge score-safe''
   \<and> screeningRecommendations_html
        (displayResults engine (completed\<lparr>total_score := JUndefined\<rparr>) voice_init)
       = NL @ indent 12 @ ''<div class='' @ [CHR 0x22] @ ''alert alert-success'' @
           [CHR 0x22] @ ''>'' @
         NL @ indent 16 @ ''<h5>Low risk</h5>'' @
         NL @ indent 16 @ ''<p>Thank you for completing the screening.</p>'' @
         NL @ indent 12 @ ''</div>'' @ NL @ indent 8"
proof -
  have falsy: "\<not> truthy JUndefined" "\<not> truthy JNull"
    by simp_all
  have texts: "ToString engine (js_or (risk_level completed) (JString ''Assessment Complete''))
      = ''Low risk''"
    "ToString engine (js_or (recommendation completed)
        (JString ''Thank you for completing the screening.''))
      = ''Thank you for completing the screening.''"
    by (simp_all add: completed_def js_or_def)
  note absent = displayResults_falsy_score [OF falsy(1), where B = engine and r = completed
      and s = voice_init]
  note null = displayResults_falsy_score [OF falsy(2), where B = engine and r = completed
      and s = voice_init]
  from absent [THEN conjunct2, THEN conjunct2, THEN conjunct2]
  have html: "screeningRecommendations_html
      (displayResults engine (completed\<lparr>total_score := JUndefined\<rparr>) voice_init)
    = NL @ indent 12 @ ''<div class='' @ [CHR 0x22] @ ''alert alert-success'' @
        [CHR 0x22] @ ''>'' @
      NL @ indent 16 @ ''<h5>Low risk</h5>'' @
      NL @ indent 16 @ ''<p>Thank you for completing the screening.</p>'' @
      NL @ indent 12 @ ''</div>'' @ NL @ indent 8"
    by (simp add: texts)
  from absent null falsy html show ?thesis
    by blast
qed

section \<open>Failures of the screening calls\<close>

text \<open>The sample session after its start.\<close>

lemma started_online:
  "sessionId (startScreening engine online voice_init) = Some ''s1''"
  "currentScreening (startScreening engine online voice_init) = Some first_response"
  "toasts (startScreening engine online voice_init) = [(''Screening started'', ''success'')]"
  "screeningInterface_display (startScreening engine online voice_init) = ''block''"
  "startScreeningBtn_display (startScreening engine online voice_init) = ''none''"
  "voiceLanguageSelect (startScreening engine online voice_init) = ''en''"
  "screeningTypeSelect (startScreening engine online voice_init) = ''EPDS''"
  by (simp_all add: startScreening_def Let_def online_def first_response_def hideLoading_def
        showToast_def updateProgress_def displayQuestion_def send_def showLoading_def
        voice_init_def)

text \<open>
  C6. When the speech-to-text call fails, or it succeeds and the respond call fails,
  \<open>processAudio\<close> shows the failure as an error toast, hides the loading overlay, and
  leaves \<open>sessionId\<close>, \<open>currentScreening\<close>, the question panel and the progress display
  as they were: the session can go on with a new recording.
\<close>

theorem processAudio_failure_keeps_session:
  assumes "speechToText_call A blob (voiceLanguageSelect s) = Inl msg
           \<or> (speechToText_call A blob (voiceLanguageSelect s) = Inr t
              \<and> respondToScreening_call A (sessionId s) (stt_text t) (confidence t) = Inl msg)"
  shows "sessionId (processAudio B A blob s) = sessionId s
         \<and> currentScreening (processAudio B A blob s) = currentScreening s
         \<and> currentQuestion_html (processAudio B A blob s) = currentQuestion_html s
         \<and> progressText (processAudio B A blob s) = progressText s
         \<and> screeningInterface_display (processAudio B A blob s) = screeningInterface_display s
         \<and> screeningResults_display (processAudio B A blob s) = screeningResults_display s
         \<and> toasts (processAudio B A blob s)
             = (''Failed to process audio: '' @ msg, ''error'') # toasts s
         \<and> loadingOverlay (processAudio B A blob s) = ''none''"
  using assms
  by (auto simp add: processAudio_def Let_def showLoading_def hideLoading_def send_def
        showToast_def)

theorem processAudio_failure_keeps_session_witness:
  "speechToText_call offline [] (voiceLanguageSelect (startScreening engine online voice_init))
     = Inl ''Request timeout''
   \<and> sessionId (processAudio engine offline [] (startScreening engine online voice_init))
       = Some ''s1''
   \<and> toasts (processAudio engine offline [] (startScreening engine online voice_init))
       = [(''Failed to process audio: Request timeout'', ''error''),
          (''Screening started'', ''success'')]
   \<and> loadingOverlay (processAudio engine offline [] (startScreening engine online voice_init))
       = ''none''
   \<and> speechToText_call deaf [] (voiceLanguageSelect (startScreening engine online voice_init))
       = Inr heard
   \<and> respondToScreening_call deaf (sessionId (startScreening engine online voice_init))
        (stt_text heard) (confidence heard) = Inl ''HTTP 500''
   \<and> sessionId (processAudio engine deaf [] (startScreening engine online voice_init))
       = Some ''s1''
   \<and> currentScreening (processAudio engine deaf [] (startScreening engine online voice_init))
       = Some first_response
   \<and> toasts (processAudio engine deaf [] (startScreening engine online voice_init))
       = [(''Failed to process audio: HTTP 500'', ''error''),
          (''Screening started'', ''success'')]"
proof -
  let ?s = "startScreening engine online voice_init"
  have fails: "speechToText_call offline [] (voiceLanguageSelect ?s) = Inl ''Request timeout''"
    by (simp add: offline_def)
  have hears: "speechToText_call deaf [] (voiceLanguageSelect ?s) = Inr heard"
    and refuses: "respondToScreening_call deaf (sessionId ?s) (stt_text heard) (confidence heard)
      = Inl ''HTTP 500''"
    by (simp_all add: deaf_def online_def)
  from hears refuses
  have later: "speechToText_call deaf [] (voiceLanguageSelect ?s) = Inl ''HTTP 500''
      \<or> (speechToText_call deaf [] (voiceLanguageSelect ?s) = Inr heard
         \<and> respondToScreening_call deaf (sessionId ?s) (stt_text heard) (confidence heard)
             = Inl ''HTTP 500'')"
    by blast
  from processAudio_failure_keeps_session [where B = engine, OF disjI1, OF fails]
    processAudio_failure_keeps_session [where B = engine, OF later]
  show ?thesis
    using fails hears refuses by (simp add: started_online)
qed

text \<open>
  C7, as the code has it. When the start request fails, \<open>startScreening\<close> sends the
  one request, shows the failure as an error toast and hides the loading overlay, and
  that is all it does: every field of the component and every element of the page is
  what it was before the click. So the session identifier, the stored screening and the
  panels are unchanged, and a component that held no session holds none afterwards.
\<close>

theorem startScreening_failure_keeps_state:
  assumes "startScreening_call A (screeningTypeSelect s) (voiceLanguageSelect s) (USER_ID A)
             = Inl msg"
  shows "startScreening B A s
           = s\<lparr>toasts := (''Failed to start screening: '' @ msg, ''error'') # toasts s,
               loadingOverlay := ''none'',
               requests := StartScreening (screeningTypeSelect s) (voiceLanguageSelect s)
                             (USER_ID A) # requests s\<rparr>
         \<and> sessionId (startScreening B A s) = sessionId s
         \<and> currentScreening (startScreening B A s) = currentScreening s
         \<and> startScreeningBtn_display (startScreening B A s) = startScreeningBtn_display s
         \<and> screeningInterface_display (startScreening B A s) = screeningInterface_display s
         \<and> screeningResults_display (startScreening B A s) = screeningResults_display s
         \<and> currentQuestion_html (startScreening B A s) = currentQuestion_html s
         \<and> progressText (startScreening B A s) = progressText s
         \<and> toasts (startScreening B A s)
             = (''Failed to start screening: '' @ msg, ''error'') # toasts s
         \<and> loadingOverlay (startScreening B A s) = ''none''
         \<and> (sessionId s = None \<longrightarrow> sessionId (startScreening B A s) = None)"
  using assms
  by (simp add: startScreening_def Let_def showLoading_def hideLoading_def send_def
        showToast_def)

theorem startScreening_failure_keeps_state_witness:
  "startScreening_call offline (screeningTypeSelect voice_init) (voiceLanguageSelect voice_init)
     (USER_ID offline) = Inl ''Failed to fetch''
   \<and> startScreening engine offline voice_init
       = voice_init\<lparr>toasts := [(''Failed to start screening: Failed to fetch'', ''error'')],
           requests := [StartScreening ''EPDS'' ''en'' ''demo'']\<rparr>
   \<and> sessionId voice_init = None
   \<and> sessionId (startScreening engine offline voice_init) = None
   \<and> toasts (startScreening engine offline voice_init)
       = [(''Failed to start screening: Failed to fetch'', ''error'')]
   \<and> loadingOverlay (startScreening engine offline voice_init) = ''none''"
proof -
  have fails: "startScreening_call offline (screeningTypeSelect voice_init)
      (voiceLanguageSelect voice_init) (USER_ID offline) = Inl ''Failed to fetch''"
    by (simp add: offline_def)
  have none: "sessionId voice_init = None"
    by (simp add: voice_init_def)
  note kept = startScreening_failure_keeps_state [where B = engine, OF fails]
  from kept [THEN conjunct1]
  have frame: "startScreening engine offline voice_init
      = voice_init\<lparr>toasts := [(''Failed to start screening: Failed to fetch'', ''error'')],
          requests := [StartScreening ''EPDS'' ''en'' ''demo'']\<rparr>"
    by (simp add: voice_init_def offline_def)
  have after: "sessionId (startScreening engine offline voice_init) = None"
    "toasts (startScreening engine offline voice_init)
       = [(''Failed to start screening: Failed to fetch'', ''error'')]"
    "loadingOverlay (startScreening engine offline voice_init) = ''none''"
    unfolding frame by (simp_all add: voice_init_def)
  from fails frame none after show ?thesis
    by blast
qed

text \<open>
  The property as the specification states it fails. Start a screening, leave the page
  and come back (the page is rendered again), and click start while the service cannot
  be reached: the start fails and the component still holds the session \<open>s1\<close>.
\<close>

theorem startScreening_failure_retains_session:
  "startScreening_call offline ''EPDS'' ''en'' (USER_ID offline) = Inl ''Failed to fetch''
   \<and> startScreeningBtn_display (voice_render (startScreening engine online voice_init)) = []
   \<and> sessionId
        (startScreening engine offline (voice_render (startScreening engine online voice_init)))
       = Some ''s1''
   \<and> sessionId
        (startScreening engine offline (voice_render (startScreening engine online voice_init)))
       \<noteq> None"
proof -
  let ?s = "voice_render (startScreening engine online voice_init)"
  have fails: "startScreening_call offline ''EPDS'' ''en'' (USER_ID offline) = Inl ''Failed to fetch''"
    by (simp add: offline_def)
  have before: "sessionId ?s = Some ''s1''" "startScreeningBtn_display ?s = []"
    "screeningTypeSelect ?s = ''EPDS''" "voiceLanguageSelect ?s = ''en''"
    by (simp_all add: voice_render_def started_online)
  have "sessionId (startScreening engine offline ?s) = sessionId ?s"
    using fails before(3,4)
    by (simp add: startScreening_def Let_def showLoading_def hideLoading_def send_def
          showToast_def)
  with fails before show ?thesis
    by simp
qed

section \<open>Where the displayed progress comes from\<close>

text \<open>
  C9, as the code has it. When a screening starts, the progress shows the constant 1 as
  the current question and the total of the start response. After each answer whose
  response is a \<open>next_question\<close>, it shows the current number and the total of that
  response. Neither depends on the state of the component: no counter is kept.
\<close>

theorem progress_from_responses:
  "(startScreening_call A (screeningTypeSelect s) (voiceLanguageSelect s) (USER_ID A) = Inr result
      \<longrightarrow> progressText (startScreening B A s)
            = ''Question '' @ number_string B 1 @ '' of ''
                @ number_string B (total_questions result)
        \<and> screeningProgress_width (startScreening B A s)
            = ToString B (JNumber (percentage B 1 (total_questions result))) @ ''%''
        \<and> screeningProgress_text (startScreening B A s)
            = ToString B (JNumber (Math_round (percentage B 1 (total_questions result)))) @ ''%'')
   \<and> (speechToText_call A blob (voiceLanguageSelect s) = Inr t
      \<and> respondToScreening_call A (sessionId s) (stt_text t) (confidence t) = Inr response
      \<and> answer_status response = ''next_question''
      \<longrightarrow> progressText (processAudio B A blob s)
            = ''Question '' @ number_string B (current_question_number response) @ '' of ''
                @ number_string B (answer_total_questions response)
        \<and> screeningProgress_width (processAudio B A blob s)
            = ToString B (JNumber (percentage B (current_question_number response)
                (answer_total_questions response))) @ ''%''
        \<and> screeningProgress_text (processAudio B A blob s)
            = ToString B (JNumber (Math_round (percentage B (current_question_number response)
                (answer_total_questions response)))) @ ''%'')"
  by (simp add: startScreening_def processAudio_def Let_def showLoading_def hideLoading_def
        send_def showToast_def updateProgress_def)

theorem progress_from_responses_witness:
  "startScreening_call online (screeningTypeSelect voice_init) (voiceLanguageSelect voice_init)
     (USER_ID online) = Inr first_response
   \<and> progressText (startScreening engine online voice_init) = ''Question 1 of 5''
   \<and> speechToText_call online [] (voiceLanguageSelect voice_init) = Inr heard
   \<and> respondToScreening_call online (sessionId voice_init) (stt_text heard) (confidence heard)
       = Inr next_response
   \<and> answer_status next_response = ''next_question''
   \<and> progressText (processAudio engine online [] voice_init) = ''Question 4 of 5''"
proof -
  have starts: "startScreening_call online (screeningTypeSelect voice_init)
      (voiceLanguageSelect voice_init) (USER_ID online) = Inr first_response"
    by (simp add: online_def)
  have hears: "speechToText_call online [] (voiceLanguageSelect voice_init) = Inr heard"
    by (simp add: online_def)
  have answers: "respondToScreening_call online (sessionId voice_init) (stt_text heard)
      (confidence heard) = Inr next_response"
    by (simp add: online_def)
  have nq: "answer_status next_response = ''next_question''"
    "current_question_number next_response = 4" "answer_total_questions next_response = 5"
    "total_questions first_response = 5"
    by (simp_all add: next_response_def first_response_def)
  from progress_from_responses [where B = engine and A = online and s = voice_init
      and result = first_response and blob = "[]" and t = heard and response = next_response]
  show ?thesis
    using starts hears answers nq by (simp add: number_string_digit digit_char_def)
qed

text \<open>
  The property as the specification states it fails at the start of a screening: the
  service sends question number 3 of 5 first, the question panel shows that number, and
  the progress says question 1.
\<close>

theorem progress_current_not_from_start_response:
  "startScreening_call online (screeningTypeSelect voice_init) (voiceLanguageSelect voice_init)
     (USER_ID online) = Inr first_response
   \<and> map_option number (current_question first_response) = Some 3
   \<and> total_questions first_response = 5
   \<and> contains (currentQuestion_html (startScreening engine online voice_init)) ''Question 3:''
   \<and> progressText (startScreening engine online voice_init) = ''Question 1 of 5''
   \<and> progressText (startScreening engine online voice_init) \<noteq> ''Question 3 of 5''"
proof -
  have panel: "currentQuestion_html (startScreening engine online voice_init)
      = NL @ indent 12 @ ''<strong>Question 3:</strong><br>'' @ NL @ indent 12 @ ''How are you?''
          @ NL @ indent 8"
    by (simp add: startScreening_def Let_def online_def first_response_def hideLoading_def
          showToast_def updateProgress_def displayQuestion_def send_def showLoading_def
          voice_init_def number_string_digit digit_char_def)
  have shown: "contains (currentQuestion_html (startScreening engine online voice_init))
      ''Question 3:''"
    unfolding panel by code_simp
  have progress: "progressText (startScreening engine online voice_init) = ''Question 1 of 5''"
    by (simp add: startScreening_def Let_def online_def first_response_def hideLoading_def
          showToast_def updateProgress_def displayQuestion_def send_def showLoading_def
          voice_init_def number_string_digit digit_char_def)
  show ?thesis
    using shown progress by (simp add: online_def first_response_def)
qed

section \<open>Validation before a search\<close>

lemma searchAlternatives_no_category:
  "categorySelect s = [] \<Longrightarrow>
   searchAlternatives B A c s = showToast ''Please select a category'' ''warning'' s"
  by (simp add: searchAlternatives_def Let_def)

lemma searchAlternatives_bad_score:
  assumes "categorySelect s \<noteq> []"
    and "isNaN (parseFloat B (currentScore s))
         \<or> num_lt (parseFloat B (currentScore s)) (Num 0)
         \<or> num_gt (parseFloat B (currentScore s)) (Num 100)"
  shows "searchAlternatives B A c s
           = showToast ''Please enter a valid score (0-100)'' ''warning'' s"
  using assms by (simp add: searchAlternatives_def Let_def)

lemma displayAlternatives_requests:
  "displayAlternatives c alts s = Inr s' \<Longrightarrow> requests s' = requests s"
  by (auto simp add: displayAlternatives_def split: if_splits sum.splits)

lemma searchAlternatives_sends:
  assumes "categorySelect s \<noteq> []"
    and "parseFloat B (currentScore s) = Num q" and "0 \<le> q" and "q \<le> 100"
  shows "requests (searchAlternatives B A c s)
           = FindAlternatives \<lparr>product_category = categorySelect s, current_score = Num q,
               price_preference = or_null (pricePreference s),
               region = or_null (regionSelect s), limit = 10\<rparr> # requests s"
proof -
  let ?req = "\<lparr>product_category = categorySelect s, current_score = Num q,
      price_preference = or_null (pricePreference s),
      region = or_null (regionSelect s), limit = 10\<rparr>"
  let ?s2 = "send (FindAlternatives ?req) ((showLoading s)\<lparr>currentCategory := categorySelect s\<rparr>)"
  have sent: "requests ?s2 = FindAlternatives ?req # requests s"
    by (simp add: send_def showLoading_def)
  have valid: "\<not> (isNaN (Num q) \<or> num_lt (Num q) (Num 0) \<or> num_gt (Num q) (Num 100))"
    using assms(3,4) by (simp add: num_gt_def)
  have "requests (searchAlternatives B A c s) = requests ?s2"
  proof (cases "findAlternatives_call A ?req")
    case (Inl msg)
    then show ?thesis
      using assms(1,2) valid
      by (simp add: searchAlternatives_def Let_def hideLoading_def showToast_def)
  next
    case (Inr alts)
    show ?thesis
    proof (cases "displayAlternatives c alts ?s2")
      case (Inl e)
      then show ?thesis
        using assms(1,2) valid Inr
        by (simp add: searchAlternatives_def Let_def hideLoading_def showToast_def)
    next
      case shown: (Inr s')
      then have "requests s' = requests ?s2"
        by (rule displayAlternatives_requests)
      then show ?thesis
        using assms(1,2) valid Inr shown
        by (simp add: searchAlternatives_def Let_def hideLoading_def showToast_def)
    qed
  qed
  with sent show ?thesis
    by simp
qed

text \<open>
  C3. Without a category, or with a score that is not a number, is below 0 or is above
  100, \<open>searchAlternatives\<close> sends nothing and shows a warning; with a category and a
  score from 0 to 100 it sends exactly one \<open>findAlternatives\<close> request.
\<close>

theorem searchAlternatives_validation:
  "(categorySelect s = []
      \<longrightarrow> requests (searchAlternatives B A c s) = requests s
        \<and> toasts (searchAlternatives B A c s)
            = (''Please select a category'', ''warning'') # toasts s)
   \<and> (categorySelect s \<noteq> []
       \<and> (isNaN (parseFloat B (currentScore s))
          \<or> num_lt (parseFloat B (currentScore s)) (Num 0)
          \<or> num_gt (parseFloat B (currentScore s)) (Num 100))
      \<longrightarrow> requests (searchAlternatives B A c s) = requests s
        \<and> toasts (searchAlternatives B A c s)
            = (''Please enter a valid score (0-100)'', ''warning'') # toasts s)
   \<and> (categorySelect s \<noteq> [] \<and> parseFloat B (currentScore s) = Num q \<and> 0 \<le> q \<and> q \<le> 100
      \<longrightarrow> requests (searchAlternatives B A c s)
            = FindAlternatives \<lparr>product_category = categorySelect s, current_score = Num q,
                price_preference = or_null (pricePreference s),
                region = or_null (regionSelect s), limit = 10\<rparr> # requests s)"
proof (intro conjI impI)
  assume "categorySelect s = []"
  then show "requests (searchAlternatives B A c s) = requests s"
    and "toasts (searchAlternatives B A c s)
           = (''Please select a category'', ''warning'') # toasts s"
    by (simp_all add: searchAlternatives_no_category showToast_def)
next
  assume bad: "categorySelect s \<noteq> []
       \<and> (isNaN (parseFloat B (currentScore s))
          \<or> num_lt (parseFloat B (currentScore s)) (Num 0)
          \<or> num_gt (parseFloat B (currentScore s)) (Num 100))"
  then have "searchAlternatives B A c s
      = showToast ''Please enter a valid score (0-100)'' ''warning'' s"
    by (intro searchAlternatives_bad_score) simp_all
  then show "requests (searchAlternatives B A c s) = requests s"
    and "toasts (searchAlternatives B A c s)
           = (''Please enter a valid score (0-100)'', ''warning'') # toasts s"
    by (simp_all add: showToast_def)
next
  assume "categorySelect s \<noteq> [] \<and> parseFloat B (currentScore s) = Num q \<and> 0 \<le> q \<and> q \<le> 100"
  then show "requests (searchAlternatives B A c s)
      = FindAlternatives \<lparr>product_category = categorySelect s, current_score = Num q,
          price_preference = or_null (pricePreference s),
          region = or_null (regionSelect s), limit = 10\<rparr> # requests s"
    by (intro searchAlternatives_sends) simp_all
qed

text \<open>
  The form with the category \<open>cosmetics\<close> and the scores \<open>-1\<close>, \<open>101\<close>, \<open>abc\<close>,
  the empty field and \<open>45\<close>; and the form as rendered, with no category.
\<close>

lemma parseFloat_samples:
  "parseFloat engine ''-1'' = Num (- 1)"
  "parseFloat engine ''101'' = Num 101"
  "parseFloat engine ''abc'' = NaN"
  "parseFloat engine [] = NaN"
  "parseFloat engine ''45'' = Num 45"
  "parseFloat engine ''72.3'' = Num (723 / 10)"
  "parseFloat engine '' 1.5e2px'' = Num 150"
  by code_simp+

theorem searchAlternatives_validation_witness:
  "categorySelect alternatives_init = []
   \<and> requests (searchAlternatives engine online (\<lambda>alt. Inr []) alternatives_init) = []
   \<and> num_lt (parseFloat engine ''-1'') (Num 0)
   \<and> requests (searchAlternatives engine online (\<lambda>alt. Inr [])
        (alternatives_init\<lparr>categorySelect := ''cosmetics'', currentScore := ''-1''\<rparr>)) = []
   \<and> num_gt (parseFloat engine ''101'') (Num 100)
   \<and> requests (searchAlternatives engine online (\<lambda>alt. Inr [])
        (alternatives_init\<lparr>categorySelect := ''cosmetics'', currentScore := ''101''\<rparr>)) = []
   \<and> isNaN (parseFloat engine ''abc'')
   \<and> requests (searchAlternatives engine online (\<lambda>alt. Inr [])
        (alternatives_init\<lparr>categorySelect := ''cosmetics'', currentScore := ''abc''\<rparr>)) = []
   \<and> isNaN (parseFloat engine [])
   \<and> toasts (searchAlternatives engine online (\<lambda>alt. Inr [])
        (alternatives_init\<lparr>categorySelect := ''cosmetics'', currentScore := []\<rparr>))
       = [(''Please enter a valid score (0-100)'', ''warning'')]
   \<and> parseFloat engine ''45'' = Num 45
   \<and> requests (searchAlternatives engine online (\<lambda>alt. Inr [])
        (alternatives_init\<lparr>categorySelect := ''cosmetics'', currentScore := ''45''\<rparr>))
       = [FindAlternatives \<lparr>product_category = ''cosmetics'', current_score = Num 45,
            price_preference = None, region = None, limit = 10\<rparr>]"
proof -
  let ?form = "\<lambda>v. alternatives_init\<lparr>categorySelect := ''cosmetics'', currentScore := v\<rparr>"
  have fields: "categorySelect alternatives_init = []" "requests alternatives_init = []"
    "toasts alternatives_init = []" "currentScore alternatives_init = ''45''"
    "pricePreference alternatives_init = []" "regionSelect alternatives_init = []"
    by (simp_all add: alternatives_init_def)
  note v = searchAlternatives_validation [where B = engine and A = online and c = "\<lambda>alt. Inr []"]
  from v [where s = alternatives_init and q = 0]
    v [where s = "?form ''-1''" and q = 0]
    v [where s = "?form ''101''" and q = 0]
    v [where s = "?form ''abc''" and q = 0]
    v [where s = "?form []" and q = 0]
    v [where s = "?form ''45''" and q = 45]
  show ?thesis
    using fields by (simp add: parseFloat_samples num_gt_def or_null_def)
qed

section \<open>The exported shopping list\<close>




lemma export_line_entry:
  assumes "entry item = Some e"
  shows "export_line B item = Inr (export_entry B e)"
proof -
  from assms obtain kvs n where item: "item = JObject kvs"
    and sc: "map_of kvs ''hormonal_health_score'' = Some (JNumber n)"
    and e: "e = (case map_of kvs ''name'' of None \<Rightarrow> JUndefined | Some v \<Rightarrow> v, n)"
    by (auto simp add: entry_def split: jsval.splits option.splits)
  show ?thesis
    using sc by (simp add: item e export_line_def call_toFixed_def export_entry_def)
qed

lemma export_line_no_entry:
  assumes "entry item = None"
  shows "\<exists>e. export_line B item = Inl e"
proof (cases item)
  case (JObject kvs)
  with assms show ?thesis
    by (auto simp add: entry_def export_line_def call_toFixed_def
        split: option.splits jsval.splits)
qed (simp_all add: export_line_def call_toFixed_def)


lemma map_throw_no_entry:
  assumes "\<exists>item \<in> set items. entry item = None"
  shows "\<exists>e. map_throw (export_line B) items = Inl e"
  using assms
proof (induction items)
  case Nil
  then show ?case by simp
next
  case (Cons item items)
  show ?case
  proof (cases "entry item")
    case None
    then obtain e where "export_line B item = Inl e"
      using export_line_no_entry by blast
    then show ?thesis by simp
  next
    case (Some e)
    with Cons.prems have "\<exists>item \<in> set items. entry item = None"
      by auto
    then obtain e' where "map_throw (export_line B) items = Inl e'"
      using Cons.IH by blast
    with Some show ?thesis
      by (simp add: export_line_entry)
  qed
qed





text \<open>
  The hypothesis is the one the code needs: an item without a Number as its score makes
  the export throw.
\<close>

lemma exportShoppingList_throws:
  assumes "\<exists>item \<in> set (shoppingList s). entry item = None"
  shows "\<exists>e. exportShoppingList B s = Inl e"
  using map_throw_no_entry [OF assms, of B]
  by (auto simp add: exportShoppingList_def)

section \<open>Responses with an error status\<close>

lemma request_catch_Error: "request_catch (Error m) = Error m"
  by (simp add: request_catch_def Error_def)

lemma starts_with_self: "starts_with s s"
  by (induction s) simp_all

lemma contains_suffix: "contains (pre @ s) s"
proof (induction pre)
  case Nil
  show ?case
    by (cases s) (simp_all add: starts_with_self)
next
  case (Cons c pre)
  then show ?case
    by simp
qed

text \<open>
  C4, as the code has it. A response whose status is not a success never comes back as
  a value: the call fails. When the body is not JSON the error says \<open>Unknown error\<close>;
  when the body is JSON with a truthy \<open>detail\<close> the error carries that detail; when
  the body is JSON (other than \<open>null\<close>) without one, the error says \<open>HTTP\<close> and the
  status code.
\<close>

theorem request_error_status_fails:
  assumes "\<not> ok r"
  shows "(\<exists>e. request B (Resolves r) = Inl e)
         \<and> (body r = NotJSON m \<longrightarrow> request B (Resolves r) = Inl (Error ''Unknown error''))
         \<and> (body r = JSON v \<and> get_prop v ''detail'' = Inr d \<and> truthy d
              \<longrightarrow> request B (Resolves r) = Inl (Error (ToString B d)))
         \<and> (body r = JSON v \<and> get_prop v ''detail'' = Inr d \<and> \<not> truthy d
              \<longrightarrow> request B (Resolves r) = Inl (Error (''HTTP '' @ str_nat (status r)))
                \<and> names_status (''HTTP '' @ str_nat (status r)) (status r))"
proof (intro conjI impI)
  show "\<exists>e. request B (Resolves r) = Inl e"
    using assms
    by (auto simp add: request_def Let_def split: body.splits sum.splits)
next
  assume "body r = NotJSON m"
  with assms show "request B (Resolves r) = Inl (Error ''Unknown error'')"
    by (simp add: request_def js_or_def request_catch_Error)
next
  assume "body r = JSON v \<and> get_prop v ''detail'' = Inr d \<and> truthy d"
  with assms show "request B (Resolves r) = Inl (Error (ToString B d))"
    by (simp add: request_def js_or_def request_catch_Error)
next
  assume "body r = JSON v \<and> get_prop v ''detail'' = Inr d \<and> \<not> truthy d"
  with assms show "request B (Resolves r) = Inl (Error (''HTTP '' @ str_nat (status r)))"
    by (simp add: request_def js_or_def request_catch_Error)
next
  show "names_status (''HTTP '' @ str_nat (status r)) (status r)"
    unfolding names_status_def by (rule contains_suffix)
qed

theorem request_error_status_fails_witness:
  "\<not> ok detailed_404
   \<and> body detailed_404 = JSON (JObject [(''detail'', JString ''Session not found'')])
   \<and> get_prop (JObject [(''detail'', JString ''Session not found'')]) ''detail''
       = Inr (JString ''Session not found'')
   \<and> truthy (JString ''Session not found'')
   \<and> request engine (Resolves detailed_404) = Inl (Error ''Session not found'')
   \<and> \<not> ok (detailed_404\<lparr>body := JSON (JObject [])\<rparr>)
   \<and> get_prop (JObject []) ''detail'' = Inr JUndefined
   \<and> \<not> truthy JUndefined
   \<and> request engine (Resolves (detailed_404\<lparr>body := JSON (JObject [])\<rparr>))
       = Inl (Error ''HTTP 404'')
   \<and> \<not> ok plain_500
   \<and> body plain_500 = NotJSON ''Unexpected token I''
   \<and> request engine (Resolves plain_500) = Inl (Error ''Unknown error'')"
proof -
  have bad: "\<not> ok detailed_404" "\<not> ok (detailed_404\<lparr>body := JSON (JObject [])\<rparr>)"
    "\<not> ok plain_500"
    by (simp_all add: detailed_404_def plain_500_def)
  have bodies: "body detailed_404 = JSON (JObject [(''detail'', JString ''Session not found'')])"
    "body (detailed_404\<lparr>body := JSON (JObject [])\<rparr>) = JSON (JObject [])"
    "body plain_500 = NotJSON ''Unexpected token I''" "status (detailed_404\<lparr>body := JSON (JObject [])\<rparr>) = 404"
    by (simp_all add: detailed_404_def plain_500_def)
  have code: "str_nat 404 = ''404''"
    by code_simp
  from request_error_status_fails [OF bad(1), where B = engine
      and v = "JObject [(''detail'', JString ''Session not found'')]"
      and d = "JString ''Session not found''"]
    request_error_status_fails [OF bad(2), where B = engine and v = "JObject []"
      and d = JUndefined]
    request_error_status_fails [OF bad(3), where B = engine and v = JNull and d = JNull
      and m = "''Unexpected token I''"]
  show ?thesis
    using bad bodies code by simp
qed

text \<open>
  The property as the specification states it fails: the response with status 500 and a
  body that is not JSON fails with \<open>Unknown error\<close>, which neither comes from the
  server nor names the status code.
\<close>

theorem request_unparsed_body_hides_status:
  "\<not> ok plain_500 \<and> status plain_500 = 500 \<and> body plain_500 = NotJSON ''Unexpected token I''
   \<and> request engine (Resolves plain_500) = Inl (Error ''Unknown error'')
   \<and> \<not> names_status ''Unknown error'' 500"
  by code_simp

section \<open>Page keys that every object inherits\<close>

lemma components_get_home: "components_get ''home'' = Own HomeComponent"
  by (simp add: components_get_def components_def)

text \<open>
  A registered key loads its component; a key that is neither registered nor inherited
  from \<open>Object.prototype\<close> loads the home page. Neither throws.
\<close>

lemma loadPage_registered:
  assumes "map_of components page = Some c"
  shows "loadPage H page a = (None, loaded H page c a)"
  using assms by (simp add: loadPage_def Let_def components_get_def loaded_def)

lemma loadPage_falls_back:
  assumes "map_of components page = None" and "page \<notin> set Object_prototype"
  shows "loadPage H page a = (None, loaded H ''home'' HomeComponent a)"
  using assms
  by (simp add: loadPage_def Let_def components_get_def components_get_home [unfolded components_get_def]
        loaded_def)

text \<open>
  A key inherited from \<open>Object.prototype\<close> is taken for a component: it becomes the
  current page, and rendering it throws.
\<close>

lemma loadPage_inherited:
  assumes "page \<in> set Object_prototype"
  shows "loadPage H page a
           = (Some (TypeError ''component.render is not a function''),
              a\<lparr>currentPage := page,
                nav_links := map (\<lambda>(href, active). (href, href = ''#'' @ page)) (nav_links a)\<rparr>)"
proof -
  from assms have "map_of components page = None"
    by (auto simp add: Object_prototype_def components_def)
  with assms show ?thesis
    by (simp add: loadPage_def Let_def components_get_def)
qed

text \<open>
  C2 fails on the code. The key \<open>constructor\<close> is not registered, yet
  \<open>this.components['constructor']\<close> is the inherited \<open>Object\<close> function, which is
  truthy: \<open>loadPage\<close> does not fall back to \<open>home\<close>, makes \<open>constructor\<close> the current
  page, leaves no link active and throws a \<open>TypeError\<close> at \<open>component.render()\<close>.
\<close>

theorem loadPage_inherited_key_throws:
  "map_of components ''constructor'' = None
   \<and> loadPage H ''constructor'' a
       = (Some (TypeError ''component.render is not a function''),
          a\<lparr>currentPage := ''constructor'',
            nav_links := map (\<lambda>(href, active). (href, href = ''#constructor'')) (nav_links a)\<rparr>)
   \<and> fst (loadPage pages ''constructor'' app_init) \<noteq> None
   \<and> currentPage (snd (loadPage pages ''constructor'' app_init)) = ''constructor''
   \<and> map snd (nav_links (snd (loadPage pages ''constructor'' app_init)))
       = [False, False, False, False, False]"
  by (simp add: loadPage_def Let_def components_get_def components_def Object_prototype_def
        app_init_def)

section \<open>Two clicks on the record button\<close>

text \<open>
  C5 fails on the code. \<open>toggleRecording\<close> tests \<open>isRecording\<close>, which
  \<open>startRecording\<close> sets only after \<open>await getUserMedia\<close>. Two clicks before the
  microphone is granted start two recorders; the component refers to the second; the
  next click stops the second only, and the first keeps recording, its tracks live, with
  \<open>isRecording\<close> false.
\<close>

theorem two_clicks_two_recorders:
  "active_recorders (run B [ClickRecord, ClickRecord, MicrophoneGranted, MicrophoneGranted]
      voice_init) = 2
   \<and> mediaRecorder (run B [ClickRecord, ClickRecord, MicrophoneGranted, MicrophoneGranted]
      voice_init) = Some 1
   \<and> recorders (run B [ClickRecord, ClickRecord, MicrophoneGranted, MicrophoneGranted,
      ClickRecord] voice_init)
       = [\<lparr>recording = True, tracks_live = True\<rparr>, \<lparr>recording = False, tracks_live = False\<rparr>]
   \<and> \<not> isRecording (run B [ClickRecord, ClickRecord, MicrophoneGranted, MicrophoneGranted,
      ClickRecord] voice_init)"
  by (simp add: step_def active_recorders_def startRecording_granted_def stopRecording_def
        showToast_def voice_init_def)

section \<open>One click at a time\<close>

text \<open>
  When every call of \<open>toggleRecording\<close> runs to its end before the next handler starts,
  the invariant holds: the defect above needs a second click while the first is
  suspended.
\<close>

lemma filter_recording_stop:
  assumes "r < length rs" and "recording (rs ! r)"
  shows "Suc (length (filter recording (rs[r := \<lparr>recording = False, tracks_live = False\<rparr>])))
           = length (filter recording rs)"
  using assms
proof (induction rs arbitrary: r)
  case Nil
  then show ?case by simp
next
  case (Cons x rs)
  then show ?case
    by (cases r) auto
qed

lemma one_recording_init: "one_recording voice_init"
  by (simp add: one_recording_def active_recorders_def voice_init_def)

lemma one_recording_stop:
  assumes "one_recording s"
  shows "one_recording (stopRecording s)"
proof (cases "isRecording s")
  case False
  then show ?thesis
    using assms by (simp add: stopRecording_def split: option.split)
next
  case True
  with assms obtain r where r: "mediaRecorder s = Some r" "r < length (recorders s)"
      "recording (recorders s ! r)" and one: "length (filter recording (recorders s)) = 1"
    by (auto simp add: one_recording_def active_recorders_def split: option.splits)
  from filter_recording_stop [OF r(2,3)] one
  have "length (filter recording ((recorders s)[r := \<lparr>recording = False, tracks_live = False\<rparr>])) = 0"
    by simp
  with True r show ?thesis
    by (simp add: stopRecording_def one_recording_def active_recorders_def)
qed

lemma one_recording_toggle:
  assumes "one_recording s"
  shows "one_recording (toggleRecording granted s)"
proof (cases "isRecording s")
  case True
  then show ?thesis
    using one_recording_stop [OF assms] by (simp add: toggleRecording_def)
next
  case False
  with assms have "filter recording (recorders s) = []"
    by (simp add: one_recording_def active_recorders_def)
  with False assms show ?thesis
    by (simp add: toggleRecording_def startRecording_def startRecording_granted_def
          startRecording_denied_def showToast_def one_recording_def active_recorders_def
          nth_append)
qed

lemma one_recording_toggles:
  "one_recording (fold toggleRecording grants voice_init)
   \<and> active_recorders (fold toggleRecording grants voice_init) \<le> 1"
proof -
  have "one_recording (fold toggleRecording grants s)" if "one_recording s" for s
    using that by (induction grants arbitrary: s) (simp_all add: one_recording_toggle)
  from this [OF one_recording_init] show ?thesis
    by (simp add: one_recording_def)
qed

end
